theory Spec2Isabelle
  imports Main
begin

section \<open>JavaScript values used by say-cheese.js\<close>

text \<open>
  The library computes with pointer coordinates and element sizes. A property that an
  object does not have reads as \<open>undefined\<close>, and arithmetic on \<open>undefined\<close> gives
  \<open>NaN\<close>. Numbers are modelled as integers: coordinates and sizes are whole pixels.
\<close>

datatype jsval = Undefined | NaN | Num int

fun truthy :: "jsval \<Rightarrow> bool" where
  "truthy Undefined = False"
| "truthy NaN = False"
| "truthy (Num n) = (n \<noteq> 0)"

definition js_or :: "jsval \<Rightarrow> jsval \<Rightarrow> jsval" where
  \<comment> \<open>\<open>a || b\<close>\<close>
  "js_or a b = (if truthy a then a else b)"

fun js_sub :: "jsval \<Rightarrow> jsval \<Rightarrow> jsval" where
  \<comment> \<open>\<open>a - b\<close>: \<open>undefined\<close> converts to \<open>NaN\<close>, and \<open>NaN\<close> is absorbing\<close>
  "js_sub (Num a) (Num b) = Num (a - b)"
| "js_sub _ _ = NaN"

fun Math_abs :: "jsval \<Rightarrow> jsval" where
  "Math_abs (Num a) = Num \<bar>a\<bar>"
| "Math_abs _ = NaN"

fun Math_min :: "jsval \<Rightarrow> jsval \<Rightarrow> jsval" where
  "Math_min (Num a) (Num b) = Num (min a b)"
| "Math_min _ _ = NaN"

datatype error =
    Error string
  | TypeError
  | ReferenceError
  | NotFoundError
  | SyntaxError

section \<open>Data model\<close>

text \<open>The pointer event fields read by \<open>eventCoords\<close>.\<close>

record event =
  offsetX :: jsval
  layerX :: jsval
  offsetY :: jsval
  layerY :: jsval

text \<open>
  The viewfinder object. A field that has not been assigned yet is \<open>Undefined\<close>, so the
  object literal \<open>{}\<close> is \<open>empty_object\<close>.
\<close>

record rect =
  startX :: jsval
  startY :: jsval
  endX :: jsval
  endY :: jsval
  width :: jsval
  height :: jsval

definition empty_object :: rect where
  "empty_object =
     \<lparr>startX = Undefined, startY = Undefined, endX = Undefined, endY = Undefined,
      width = Undefined, height = Undefined\<rparr>"

type_synonym pixel = nat

text \<open>The frame a video element shows at the moment it is read.\<close>

record frame =
  frame_width :: nat
  frame_height :: nat
  frame_pixel :: "nat \<Rightarrow> nat \<Rightarrow> pixel"

record video_el =
  video_node :: nat
  autoplay :: bool
  offsetWidth :: int
  offsetHeight :: int
  offsetTop :: int
  offsetLeft :: int
  current_frame :: frame

record canvas_el =
  canvas_node :: nat
  canvas_width :: nat
  canvas_height :: nat
  canvas_position :: string
  canvas_top :: "int option"
  canvas_left :: "int option"
  canvas_cursor :: string

datatype drawop =
    ClearRect jsval jsval jsval jsval
  | FillRect jsval jsval jsval jsval
  | StrokeRect jsval jsval jsval jsval

text \<open>
  The 2D context of the on-screen canvas: the properties the library assigns, and the
  drawing calls it has issued, in order.
\<close>

record context2d =
  globalCompositeOperation :: string
  fillStyle :: string
  strokeStyle :: string
  lineWidth :: int
  drawn :: "drawop list"

text \<open>
  A snapshot is an off-screen canvas: its size and its rows of pixels. A pixel that
  nothing was drawn on is transparent, written \<open>None\<close>.
\<close>

record snapshot =
  snap_width :: nat
  snap_height :: nat
  snap_pixels :: "pixel option list list"

text \<open>
  What the instance hands to the host: the events it triggers and the callback it calls.
  Host handlers are observers; they are recorded, not run.
\<close>

datatype notification =
    Trigger string
  | TriggerSnapshot snapshot
  | Callback snapshot

datatype gval = GNode nat | GOther

text \<open>
  The instance with the part of the page it touches. Viewfinder objects live in
  \<open>heap\<close> and the instance holds a reference, since \<open>this.viewfinder = box\<close> shares the
  object with the drag handlers. \<open>fresh\<close> is the next unused heap address and
  \<open>next_node\<close> the next unused node of the document; \<open>dom\<close> gives the children of a
  node. The field \<open>events\<close> of the instance is never read and is left out.
\<close>

record state =
  viewfinder :: nat
  snapshots :: "snapshot list"
  canvas :: "canvas_el option"
  canvas_context :: "context2d option"
  video :: "video_el option"
  dynamicViewfinder :: bool
  element :: nat
  element_position :: string
  heap :: "nat \<Rightarrow> rect"
  fresh :: nat
  dom :: "nat \<Rightarrow> nat list"
  body :: nat
  next_node :: nat
  globals :: "string \<Rightarrow> gval option"
  notifications :: "notification list"

text \<open>
  The variables of the closure made by \<open>initDynamicViewfinder\<close>, shared by its three
  handlers: the flag and the reference to the one \<open>box\<close> object.
\<close>

record closure =
  isDragging :: bool
  box :: nat

text \<open>
  The page a constructor call runs in. \<open>querySelectorAll\<close> gives the elements a
  selector matches, and \<open>None\<close> for a string that is no selector.
\<close>

record page =
  navigator :: "string set"
  querySelectorAll :: "string \<Rightarrow> nat list option"
  page_dom :: "nat \<Rightarrow> nat list"
  page_body :: nat
  page_next_node :: nat
  page_globals :: "string \<Rightarrow> gval option"

section \<open>The library\<close>

definition userMediaFeatureExists :: "string set \<Rightarrow> bool" where
  "userMediaFeatureExists nav \<longleftrightarrow>
     ''getUserMedia'' \<in> nav \<or>
     ''webkitGetUserMedia'' \<in> nav \<or>
     ''mozGetUserMedia'' \<in> nav"

definition eventCoords :: "event \<Rightarrow> jsval \<times> jsval" where
  "eventCoords evt = (js_or (offsetX evt) (layerX evt), js_or (offsetY evt) (layerY evt))"

definition trigger :: "notification \<Rightarrow> state \<Rightarrow> state" where
  "trigger n s = s\<lparr>notifications := notifications s @ [n]\<rparr>"

definition alloc :: "rect \<Rightarrow> state \<Rightarrow> nat \<times> state" where
  \<comment> \<open>a new object literal\<close>
  "alloc r s = (fresh s, s\<lparr>heap := (heap s)(fresh s := r), fresh := Suc (fresh s)\<rparr>)"

definition canvas_dim :: "nat \<Rightarrow> jsval \<Rightarrow> nat" where
  \<comment> \<open>what \<open>canvas.width\<close> reads after \<open>canvas.width = v\<close>: the attribute is an unsigned
      32-bit integer, a value that is not a number becomes 0, and a value above
      2147483647 falls back to the default of the attribute\<close>
  "canvas_dim dflt v =
     (case v of
        Num n \<Rightarrow> (let m = n mod 4294967296 in if m \<le> 2147483647 then nat m else dflt)
      | _ \<Rightarrow> 0)"

definition style_length :: "int \<Rightarrow> int option \<Rightarrow> int option" where
  \<comment> \<open>\<open>style.top = n\<close> with a number: without a unit only 0 is a length, and any other
      number leaves the property as it was\<close>
  "style_length n old = (if n = 0 then Some 0 else old)"

definition setOptions :: "bool option \<Rightarrow> state \<Rightarrow> state" where
  \<comment> \<open>\<open>merge\<close> is \<open>$.extend\<close>: a key the caller gave overwrites the default\<close>
  "setOptions options s =
     (case options of None \<Rightarrow> s | Some b \<Rightarrow> s\<lparr>dynamicViewfinder := b\<rparr>)"

definition SayCheese :: "page \<Rightarrow> string \<Rightarrow> bool option \<Rightarrow> error + state" where
  "SayCheese pg selector options =
     (if userMediaFeatureExists (navigator pg) then
        (case querySelectorAll pg selector of
           None \<Rightarrow> Inl SyntaxError
         | Some [] \<Rightarrow> Inl TypeError
         | Some (el # _) \<Rightarrow>
             Inr (setOptions options
               \<lparr>viewfinder = 0, snapshots = [], canvas = None, canvas_context = None,
                video = None, dynamicViewfinder = False, element = el,
                element_position = ''relative'', heap = (\<lambda>_. empty_object), fresh = 1,
                dom = page_dom pg, body = page_body pg, next_node = page_next_node pg,
                globals = page_globals pg, notifications = []\<rparr>))
      else Inl (Error ''getUserMedia() is not supported in this browser''))"

definition blank_frame :: frame where
  "blank_frame = \<lparr>frame_width = 0, frame_height = 0, frame_pixel = (\<lambda>_ _. 0)\<rparr>"

definition createVideo :: "state \<Rightarrow> state" where
  "createVideo s =
     s\<lparr>video := Some \<lparr>video_node = next_node s, autoplay = True, offsetWidth = 0,
                       offsetHeight = 0, offsetTop = 0, offsetLeft = 0,
                       current_frame = blank_frame\<rparr>,
       next_node := Suc (next_node s)\<rparr>"

definition appendChild :: "nat \<Rightarrow> nat \<Rightarrow> state \<Rightarrow> state" where
  "appendChild parent child s = s\<lparr>dom := (dom s)(parent := dom s parent @ [child])\<rparr>"

definition success :: "state \<Rightarrow> state" where
  \<comment> \<open>the callback \<open>start\<close> gives to \<open>getUserMedia\<close>\<close>
  "success s =
     (let s1 = createVideo s
      in case video s1 of None \<Rightarrow> s1 | Some v \<Rightarrow> appendChild (element s1) (video_node v) s1)"

definition loadedmetadata :: "int \<Rightarrow> int \<Rightarrow> frame \<Rightarrow> state \<Rightarrow> state" where
  \<comment> \<open>the page lays the video out and the stream delivers a frame\<close>
  "loadedmetadata w h f s =
     s\<lparr>video := map_option (\<lambda>v. v\<lparr>offsetWidth := w, offsetHeight := h, current_frame := f\<rparr>)
                  (video s)\<rparr>"

definition initDefaultViewfinder :: "state \<Rightarrow> error option \<times> state" where
  "initDefaultViewfinder s =
     (case video s of
        None \<Rightarrow> (Some TypeError, s)
      | Some v \<Rightarrow>
          (let (a, s1) = alloc \<lparr>startX = Num 0, startY = Num 0,
                                endX = Num (offsetWidth v), endY = Num (offsetHeight v),
                                width = Num (offsetWidth v), height = Num (offsetHeight v)\<rparr> s
           in (None, s1\<lparr>viewfinder := a\<rparr>)))"

definition initDynamicViewfinder :: "state \<Rightarrow> error option \<times> closure option \<times> state" where
  \<comment> \<open>the listeners it registers on the canvas are the handlers \<open>start\<close>, \<open>stop\<close> and
      \<open>draw\<close> below, run on the closure it returns\<close>
  "initDynamicViewfinder s =
     (let (b, s1) = alloc empty_object s
      in case canvas s1 of
           None \<Rightarrow> (Some TypeError, None, s1)
         | Some cv \<Rightarrow>
             (None, Some \<lparr>isDragging = False, box = b\<rparr>,
              s1\<lparr>canvas := Some (cv\<lparr>canvas_cursor := ''crosshair''\<rparr>)\<rparr>))"

definition new_context :: context2d where
  "new_context =
     \<lparr>globalCompositeOperation = ''source-over'', fillStyle = ''#000000'',
      strokeStyle = ''#000000'', lineWidth = 1, drawn = []\<rparr>"

definition setupCanvas :: "state \<Rightarrow> error option \<times> closure option \<times> state" where
  "setupCanvas s =
     (let cv0 = \<lparr>canvas_node = next_node s, canvas_width = 300, canvas_height = 150,
                 canvas_position = [], canvas_top = None, canvas_left = None,
                 canvas_cursor = []\<rparr>;
          s1 = s\<lparr>canvas := Some cv0, next_node := Suc (next_node s)\<rparr>
      in case video s1 of
           None \<Rightarrow> (Some TypeError, None, s1)
         | Some v \<Rightarrow>
             (let cv = cv0\<lparr>canvas_width := canvas_dim 300 (Num (offsetWidth v)),
                          canvas_height := canvas_dim 150 (Num (offsetHeight v)),
                          canvas_position := ''absolute'',
                          canvas_top := style_length (offsetTop v) None,
                          canvas_left := style_length (offsetLeft v) None\<rparr>;
                  s2 = appendChild (element s1) (canvas_node cv)
                         (s1\<lparr>canvas := Some cv, canvas_context := Some new_context\<rparr>)
              in case initDefaultViewfinder s2 of
                   (Some e, s3) \<Rightarrow> (Some e, None, s3)
                 | (None, s3) \<Rightarrow>
                     if dynamicViewfinder s3 then
                       (case initDynamicViewfinder s3 of
                          (Some e, c, s4) \<Rightarrow> (Some e, c, s4)
                        | (None, c, s4) \<Rightarrow> (None, c, trigger (Trigger ''start'') s4))
                     else (None, None, trigger (Trigger ''start'') s3)))"

subsection \<open>The drag handlers\<close>

definition start :: "event \<Rightarrow> closure \<times> state \<Rightarrow> error option \<times> closure \<times> state" where
  "start evt cs =
     (let (c, s) = cs;
          coords = eventCoords evt;
          s1 = s\<lparr>heap := (heap s)(box c := (heap s (box c))\<lparr>startX := fst coords\<rparr>)\<rparr>;
          s2 = s1\<lparr>heap := (heap s1)(box c := (heap s1 (box c))\<lparr>startY := snd coords\<rparr>)\<rparr>
      in (None, c\<lparr>isDragging := True\<rparr>, s2))"

definition stop :: "event \<Rightarrow> closure \<times> state \<Rightarrow> error option \<times> closure \<times> state" where
  "stop evt cs =
     (let (c, s) = cs;
          c1 = c\<lparr>isDragging := False\<rparr>;
          coords = eventCoords evt;
          s1 = s\<lparr>heap := (heap s)(box c := (heap s (box c))\<lparr>endX := fst coords\<rparr>)\<rparr>;
          s2 = s1\<lparr>heap := (heap s1)(box c := (heap s1 (box c))\<lparr>endY := snd coords\<rparr>)\<rparr>;
          s3 = s2\<lparr>viewfinder := box c\<rparr>
      in (None, c1, trigger (Trigger ''change'') s3))"

definition shade :: "canvas_el \<Rightarrow> rect \<Rightarrow> context2d \<Rightarrow> context2d" where
  \<comment> \<open>the drawing calls of \<open>draw\<close> from \<open>clearRect\<close> on\<close>
  "shade cv b ctx =
     (let W = Num (int (canvas_width cv)); H = Num (int (canvas_height cv));
          c1 = ctx\<lparr>drawn := drawn ctx @ [ClearRect (Num 0) (Num 0) W H]\<rparr>;
          c2 = c1\<lparr>fillStyle := ''rgba(0, 0, 0, .8)''\<rparr>;
          c3 = c2\<lparr>drawn := drawn c2 @ [FillRect (Num 0) (Num 0) W H]\<rparr>;
          c4 = c3\<lparr>strokeStyle := ''rgba(255, 255, 255, .5)''\<rparr>;
          c5 = c4\<lparr>lineWidth := 2\<rparr>;
          c6 = c5\<lparr>drawn := drawn c5 @ [StrokeRect (startX b) (startY b) (width b) (height b)]\<rparr>
      in c6\<lparr>drawn := drawn c6 @ [FillRect (startX b) (startY b) (width b) (height b)]\<rparr>)"

definition draw :: "event \<Rightarrow> closure \<times> state \<Rightarrow> error option \<times> closure \<times> state" where
  "draw evt cs =
     (let (c, s) = cs;
          coords = eventCoords evt
      in if isDragging c then
           (let s1 = s\<lparr>heap := (heap s)(box c :=
                      (heap s (box c))\<lparr>width := js_sub (fst coords) (startX (heap s (box c)))\<rparr>)\<rparr>;
                s2 = s1\<lparr>heap := (heap s1)(box c :=
                      (heap s1 (box c))\<lparr>height := js_sub (snd coords) (startY (heap s1 (box c)))\<rparr>)\<rparr>
            in case canvas_context s2 of
                 None \<Rightarrow> (Some TypeError, c, s2)
               | Some ctx \<Rightarrow>
                   (let ctx1 = ctx\<lparr>globalCompositeOperation := ''xor''\<rparr>
                    in case canvas s2 of
                         None \<Rightarrow> (Some TypeError, c, s2\<lparr>canvas_context := Some ctx1\<rparr>)
                       | Some cv \<Rightarrow>
                           (None, c,
                            s2\<lparr>canvas_context := Some (shade cv (heap s2 (box c)) ctx1)\<rparr>)))
         else (None, c, s))"

text \<open>
  The page delivers pointer events to the listeners one at a time. An exception thrown by
  a listener ends that listener only, so the next event finds the state it left.
\<close>

datatype pointer = Mousedown event | Mousemove event | Mouseup event

fun dispatch :: "pointer \<Rightarrow> closure \<times> state \<Rightarrow> error option \<times> closure \<times> state" where
  "dispatch (Mousedown evt) cs = start evt cs"
| "dispatch (Mousemove evt) cs = draw evt cs"
| "dispatch (Mouseup evt) cs = stop evt cs"

fun deliver :: "pointer list \<Rightarrow> closure \<times> state \<Rightarrow> closure \<times> state" where
  "deliver [] cs = cs"
| "deliver (p # ps) cs = deliver ps (snd (dispatch p cs))"

definition gesture :: "event \<Rightarrow> event list \<Rightarrow> event \<Rightarrow> pointer list" where
  \<comment> \<open>press, moves, release\<close>
  "gesture e0 moves en = Mousedown e0 # map Mousemove moves @ [Mouseup en]"

definition committed :: "closure \<times> state \<Rightarrow> rect" where
  \<comment> \<open>what \<open>this.viewfinder\<close> reads\<close>
  "committed cs = heap (snd cs) (viewfinder (snd cs))"

subsection \<open>Reset, snapshot, stop\<close>

definition resetViewfinder :: "state \<Rightarrow> error option \<times> state" where
  "resetViewfinder s =
     (case canvas_context s of
        None \<Rightarrow> (Some TypeError, s)
      | Some ctx \<Rightarrow>
          (let s1 = s\<lparr>canvas_context := Some (ctx\<lparr>globalCompositeOperation := ''source-over''\<rparr>)\<rparr>
           in case canvas s1 of
                None \<Rightarrow> (Some TypeError, s1)
              | Some cv \<Rightarrow>
                  (let ctx1 = ctx\<lparr>globalCompositeOperation := ''source-over''\<rparr>;
                       ctx2 = ctx1\<lparr>drawn := drawn ctx1 @
                                [ClearRect (Num 0) (Num 0) (Num (int (canvas_width cv)))
                                   (Num (int (canvas_height cv)))]\<rparr>;
                       s2 = s1\<lparr>canvas_context := Some ctx2\<rparr>
                   in case video s2 of
                        None \<Rightarrow> (Some TypeError, s2)
                      | Some v \<Rightarrow>
                          (let (a, s3) = alloc \<lparr>startX = Num 0, startY = Num 0,
                                   endX = Num (offsetWidth v), endY = Num (offsetHeight v),
                                   width = Num (offsetWidth v), height = Num (offsetHeight v)\<rparr> s2
                           in (None, trigger (Trigger ''change'') (s3\<lparr>viewfinder := a\<rparr>))))))"

definition source_pixel :: "frame \<Rightarrow> int \<Rightarrow> int \<Rightarrow> pixel option" where
  \<comment> \<open>Modelled from the spec: the copy is clipped to the source frame (4.2, error
      conditions), so a position has a pixel only inside the frame\<close>
  "source_pixel f x y =
     (if 0 \<le> x \<and> x < int (frame_width f) \<and> 0 \<le> y \<and> y < int (frame_height f)
      then Some (frame_pixel f (nat x) (nat y)) else None)"

definition crop_pixel :: "frame \<Rightarrow> jsval \<Rightarrow> jsval \<Rightarrow> int \<Rightarrow> int \<Rightarrow> pixel option" where
  \<comment> \<open>Modelled from the spec: the pixel of the frame at an offset from the crop origin
      (4.2, step 3); an origin that is not a number selects no pixel\<close>
  "crop_pixel f sx sy i j =
     (case (sx, sy) of
        (Num ox, Num oy) \<Rightarrow> source_pixel f (ox + i) (oy + j)
      | _ \<Rightarrow> None)"

definition drawImage ::
  "nat \<times> nat \<Rightarrow> frame \<Rightarrow> jsval \<Rightarrow> jsval \<Rightarrow> nat \<Rightarrow> nat \<Rightarrow> nat \<Rightarrow> nat \<Rightarrow> nat \<Rightarrow> nat
     \<Rightarrow> pixel option list list" where
  \<comment> \<open>Modelled from the spec: \<open>ctx.drawImage\<close> is the platform's and not under src/.
      The spec (4.2, step 3 and error conditions) has the pixels of the source frame at
      \<open>[origin, origin + (cropWidth, cropHeight)]\<close> copied into a new buffer at its
      origin, clipped to the frame and never failing. The first argument is the size of the
      canvas drawn on; \<open>sx sy sw sh\<close> is the source rectangle and \<open>dx dy dw dh\<close> the
      destination rectangle, which the library always gives the size of the source
      rectangle, so nothing is scaled.\<close>
  "drawImage dims f sx sy sw sh dx dy dw dh =
     map (\<lambda>v. map (\<lambda>u.
            if dx \<le> u \<and> u < dx + sw \<and> dy \<le> v \<and> v < dy + sh
            then crop_pixel f sx sy (int (u - dx)) (int (v - dy))
            else None) [0..<fst dims]) [0..<snd dims]"

definition takeSnapshot :: "bool \<Rightarrow> state \<Rightarrow> error option \<times> state" where
  \<comment> \<open>the flag says whether a callback was given; \<open>drawImage\<close> rejects the image
      \<open>null\<close> with a TypeError\<close>
  "takeSnapshot callback s =
     (let vf = heap s (viewfinder s);
          w = canvas_dim 300 (Math_abs (width vf));
          h = canvas_dim 150 (Math_abs (height vf))
      in case video s of
           None \<Rightarrow> (Some TypeError, s)
         | Some v \<Rightarrow>
             (let snapshot = \<lparr>snap_width = w, snap_height = h,
                    snap_pixels = drawImage (w, h) (current_frame v)
                      (Math_min (startX vf) (endX vf)) (Math_min (startY vf) (endY vf))
                      w h 0 0 w h\<rparr>;
                  s1 = s\<lparr>snapshots := snapshots s @ [snapshot]\<rparr>;
                  s2 = trigger (TriggerSnapshot snapshot) s1
              in (None, if callback then s2\<lparr>notifications := notifications s2 @ [Callback snapshot]\<rparr>
                        else s2)))"

definition removeChild :: "nat \<Rightarrow> gval \<Rightarrow> state \<Rightarrow> error option \<times> state" where
  "removeChild parent child s =
     (case child of
        GOther \<Rightarrow> (Some TypeError, s)
      | GNode n \<Rightarrow>
          if n \<in> set (dom s parent)
          then (None, s\<lparr>dom := (dom s)(parent := remove1 n (dom s parent))\<rparr>)
          else (Some NotFoundError, s))"

definition SayCheese_stop :: "state \<Rightarrow> error option \<times> state" where
  \<comment> \<open>\<open>SayCheese.prototype.stop\<close>; the bare identifier \<open>video\<close> is no variable of the
      library, so it is looked up among the globals of the page\<close>
  "SayCheese_stop s =
     (let s1 = s\<lparr>video := None\<rparr>
      in case globals s1 ''video'' of
           None \<Rightarrow> (Some ReferenceError, s1)
         | Some g \<Rightarrow> removeChild (body s1) g s1)"

section \<open>Auxiliary definitions for the proofs\<close>

text \<open>
  The box after the moves of one drag: the two assignments of \<open>draw\<close>, event by event.
\<close>

fun moved :: "event list \<Rightarrow> rect \<Rightarrow> rect" where
  "moved [] b = b"
| "moved (e # es) b =
     moved es (b\<lparr>width := js_sub (fst (eventCoords e)) (startX b),
                 height := js_sub (snd (eventCoords e)) (startY b)\<rparr>)"

text \<open>A mouse event at a position of the canvas.\<close>

definition mouse :: "int \<Rightarrow> int \<Rightarrow> event" where
  "mouse a b = \<lparr>offsetX = Num a, layerX = Num a, offsetY = Num b, layerY = Num b\<rparr>"

text \<open>
  A page with one container, a camera frame of one colour, and the instance on that page
  once the stream has started with the dynamic viewfinder on: surface 640 by 480.
\<close>

definition demo_page :: page where
  "demo_page =
     \<lparr>navigator = {''webkitGetUserMedia''},
      querySelectorAll = (\<lambda>sel. if sel = ''#cam'' then Some [1] else Some []),
      page_dom = (\<lambda>n. if n = 0 then [1] else []),
      page_body = 0, page_next_node = 2, page_globals = (\<lambda>_. None)\<rparr>"

definition demo_frame :: frame where
  "demo_frame = \<lparr>frame_width = 640, frame_height = 480, frame_pixel = (\<lambda>_ _. 7)\<rparr>"

definition full_frame :: rect where
  "full_frame =
     \<lparr>startX = Num 0, startY = Num 0, endX = Num 640, endY = Num 480,
      width = Num 640, height = Num 480\<rparr>"

definition demo_video :: video_el where
  "demo_video =
     \<lparr>video_node = 2, autoplay = True, offsetWidth = 640, offsetHeight = 480,
      offsetTop = 0, offsetLeft = 0, current_frame = demo_frame\<rparr>"

definition tracking :: "closure \<times> state" where
  "tracking =
     (\<lparr>isDragging = False, box = 2\<rparr>,
      \<lparr>viewfinder = 1, snapshots = [],
       canvas = Some \<lparr>canvas_node = 3, canvas_width = 640, canvas_height = 480,
                      canvas_position = ''absolute'', canvas_top = Some 0,
                      canvas_left = Some 0,
                      canvas_cursor = ''crosshair''\<rparr>,
       canvas_context = Some new_context,
       video = Some demo_video,
       dynamicViewfinder = True, element = 1, element_position = ''relative'',
       heap = (\<lambda>a. if a = 1 then full_frame else empty_object), fresh = 3,
       dom = (\<lambda>n. if n = 0 then [1] else if n = 1 then [2, 3] else []),
       body = 0, next_node = 4, globals = (\<lambda>_. None),
       notifications = [Trigger ''start'']\<rparr>)"

text \<open>A release ends a gesture; presses and moves do not.\<close>

fun releases :: "pointer \<Rightarrow> bool" where
  "releases (Mouseup _) = True"
| "releases _ = False"

text \<open>
  Two states of the demonstration: after a first drag from (0, 0) to (10, 10), and with
  the button just pressed at (100, 50).
\<close>

definition first_drag :: "closure \<times> state" where
  "first_drag = deliver (gesture (mouse 0 0) [mouse 10 10] (mouse 10 10)) tracking"

definition pressed :: "closure \<times> state" where
  "pressed = deliver [Mousedown (mouse 100 50)] tracking"

text \<open>
  More states of the demonstration: the instance as the constructor leaves it, a page
  without the camera capability, one region dragged
  in both directions, and a drag that lies wholly outside the frame of 640 by 480.
\<close>

definition constructed :: state where
  "constructed =
     \<lparr>viewfinder = 0, snapshots = [], canvas = None, canvas_context = None,
      video = None, dynamicViewfinder = True, element = 1,
      element_position = ''relative'', heap = (\<lambda>_. empty_object), fresh = 1,
      dom = (\<lambda>n. if n = 0 then [1] else []), body = 0, next_node = 2,
      globals = (\<lambda>_. None), notifications = []\<rparr>"

definition old_browser :: page where
  "old_browser = demo_page\<lparr>navigator := {''geolocation''}\<rparr>"

definition drag_down :: "closure \<times> state" where
  "drag_down = deliver (gesture (mouse 10 20) [mouse 30 50] (mouse 30 50)) tracking"


definition far_drag :: "closure \<times> state" where
  "far_drag = deliver (gesture (mouse 700 500) [mouse 720 510] (mouse 720 510)) tracking"


definition click :: "closure \<times> state" where
  "click = deliver (gesture (mouse 100 50) [] (mouse 100 50)) tracking"

definition named_video :: state where
  "named_video =
     (snd tracking)\<lparr>globals := (\<lambda>name. if name = ''video'' then Some (GNode 1) else None)\<rparr>"

section \<open>The drag handlers, step by step\<close>

lemma eventCoords_mouse: "eventCoords (mouse a b) = (Num a, Num b)"
  by (simp add: eventCoords_def mouse_def js_or_def)

text \<open>The demonstration state is the one the library reaches on the demonstration page.\<close>

lemma tracking_reached:
  "map_sum id (\<lambda>s. setupCanvas (loadedmetadata 640 480 demo_frame (success s)))
     (SayCheese demo_page ''#cam'' (Some True)) =
   Inr (None, Some (fst tracking), snd tracking)"
  by (simp add: SayCheese_def userMediaFeatureExists_def demo_page_def setOptions_def
      success_def createVideo_def appendChild_def loadedmetadata_def setupCanvas_def
      initDefaultViewfinder_def initDynamicViewfinder_def alloc_def canvas_dim_def
      style_length_def
      trigger_def tracking_def demo_video_def full_frame_def Let_def fun_eq_iff)

lemma start_eq:
  "start e cs =
     (None, (fst cs)\<lparr>isDragging := True\<rparr>,
      (snd cs)\<lparr>heap := (heap (snd cs))(box (fst cs) :=
         (heap (snd cs) (box (fst cs)))\<lparr>startX := fst (eventCoords e),
                                        startY := snd (eventCoords e)\<rparr>)\<rparr>)"
  by (simp add: start_def Let_def split_beta)

lemma stop_eq:
  "stop e cs =
     (None, (fst cs)\<lparr>isDragging := False\<rparr>,
      (snd cs)\<lparr>heap := (heap (snd cs))(box (fst cs) :=
         (heap (snd cs) (box (fst cs)))\<lparr>endX := fst (eventCoords e),
                                        endY := snd (eventCoords e)\<rparr>),
        viewfinder := box (fst cs),
        notifications := notifications (snd cs) @ [Trigger ''change'']\<rparr>)"
  by (simp add: stop_def Let_def trigger_def split_beta)

lemma draw_idle: "\<not> isDragging c \<Longrightarrow> draw e (c, s) = (None, c, s)"
  by (simp add: draw_def)

lemma draw_drag:
  assumes "isDragging c"
  shows "fst (snd (draw e (c, s))) = c"
    and "heap (snd (snd (draw e (c, s)))) = (heap s)(box c := moved [e] (heap s (box c)))"
    and "viewfinder (snd (snd (draw e (c, s)))) = viewfinder s"
    and "notifications (snd (snd (draw e (c, s)))) = notifications s"
  using assms
  by (auto simp: draw_def Let_def split: option.splits)

lemma moved_fields:
  "startX (moved ms b) = startX b" "startY (moved ms b) = startY b"
  "endX (moved ms b) = endX b" "endY (moved ms b) = endY b"
  by (induction ms arbitrary: b) simp_all

lemma moved_extent:
  "ms \<noteq> [] \<Longrightarrow> width (moved ms b) = js_sub (fst (eventCoords (last ms))) (startX b)"
  "ms \<noteq> [] \<Longrightarrow> height (moved ms b) = js_sub (snd (eventCoords (last ms))) (startY b)"
  by (induction ms arbitrary: b) (auto simp: moved_fields)

lemma deliver_append: "deliver (xs @ ys) cs = deliver ys (deliver xs cs)"
  by (induction xs arbitrary: cs) simp_all

text \<open>
  While the button is down, a run of moves leaves the closure alone and rewrites only the
  extents of the box.
\<close>

lemma deliver_moves:
  assumes "isDragging c"
  shows "fst (deliver (map Mousemove ms) (c, s)) = c
       \<and> heap (snd (deliver (map Mousemove ms) (c, s))) =
            (heap s)(box c := moved ms (heap s (box c)))
       \<and> viewfinder (snd (deliver (map Mousemove ms) (c, s))) = viewfinder s
       \<and> notifications (snd (deliver (map Mousemove ms) (c, s))) = notifications s"
proof (induction ms arbitrary: s)
  case Nil
  show ?case by simp
next
  case (Cons e ms)
  define s1 where "s1 = snd (snd (draw e (c, s)))"
  have step: "snd (draw e (c, s)) = (c, s1)"
    using draw_drag(1) [OF assms, of e s] by (simp add: s1_def prod_eq_iff)
  have h1: "heap s1 = (heap s)(box c := moved [e] (heap s (box c)))"
    and v1: "viewfinder s1 = viewfinder s"
    and n1: "notifications s1 = notifications s"
    using draw_drag(2-4) [OF assms, of e s] by (simp_all add: s1_def)
  have "deliver (map Mousemove (e # ms)) (c, s) = deliver (map Mousemove ms) (c, s1)"
    by (simp add: step)
  then show ?case
    using Cons.IH [of s1] by (simp add: h1 v1 n1 fun_eq_iff)
qed

text \<open>What a whole gesture does, whatever the box held before.\<close>

lemma gesture_effect:
  "fst (deliver (gesture e0 ms en) cs) = (fst cs)\<lparr>isDragging := False\<rparr>"
  "viewfinder (snd (deliver (gesture e0 ms en) cs)) = box (fst cs)"
  "heap (snd (deliver (gesture e0 ms en) cs)) =
     (heap (snd cs))(box (fst cs) :=
       (moved ms ((heap (snd cs) (box (fst cs)))\<lparr>startX := fst (eventCoords e0),
                                                 startY := snd (eventCoords e0)\<rparr>))
         \<lparr>endX := fst (eventCoords en), endY := snd (eventCoords en)\<rparr>)"
  "notifications (snd (deliver (gesture e0 ms en) cs)) =
     notifications (snd cs) @ [Trigger ''change'']"
proof -
  define c1 where "c1 = (fst cs)\<lparr>isDragging := True\<rparr>"
  define s1 where "s1 = (snd cs)\<lparr>heap := (heap (snd cs))(box (fst cs) :=
     (heap (snd cs) (box (fst cs)))\<lparr>startX := fst (eventCoords e0),
                                    startY := snd (eventCoords e0)\<rparr>)\<rparr>"
  define cs2 where "cs2 = deliver (map Mousemove ms) (c1, s1)"
  have drag: "isDragging c1" by (simp add: c1_def)
  have c2: "fst cs2 = c1"
    and h2: "heap (snd cs2) = (heap s1)(box c1 := moved ms (heap s1 (box c1)))"
    and n2: "notifications (snd cs2) = notifications s1"
    using deliver_moves [OF drag, of ms s1] by (simp_all add: cs2_def)
  have g: "deliver (gesture e0 ms en) cs = snd (stop en cs2)"
    by (simp add: gesture_def deliver_append start_eq c1_def s1_def cs2_def)
  show "fst (deliver (gesture e0 ms en) cs) = (fst cs)\<lparr>isDragging := False\<rparr>"
    by (simp add: g stop_eq c2) (simp add: c1_def)
  show "viewfinder (snd (deliver (gesture e0 ms en) cs)) = box (fst cs)"
    by (simp add: g stop_eq c2) (simp add: c1_def)
  show "heap (snd (deliver (gesture e0 ms en) cs)) =
     (heap (snd cs))(box (fst cs) :=
       (moved ms ((heap (snd cs) (box (fst cs)))\<lparr>startX := fst (eventCoords e0),
                                                 startY := snd (eventCoords e0)\<rparr>))
         \<lparr>endX := fst (eventCoords en), endY := snd (eventCoords en)\<rparr>)"
    by (simp add: g stop_eq c2 h2) (simp add: c1_def s1_def)
  show "notifications (snd (deliver (gesture e0 ms en) cs)) =
     notifications (snd cs) @ [Trigger ''change'']"
    by (simp add: g stop_eq n2) (simp add: s1_def)
qed

lemma gesture_commit:
  "committed (deliver (gesture e0 ms en) cs) =
     (moved ms ((heap (snd cs) (box (fst cs)))\<lparr>startX := fst (eventCoords e0),
                                               startY := snd (eventCoords e0)\<rparr>))
       \<lparr>endX := fst (eventCoords en), endY := snd (eventCoords en)\<rparr>"
  by (simp add: committed_def gesture_effect)

lemma tracking_parts:
  "fst tracking = \<lparr>isDragging = False, box = 2\<rparr>"
  "viewfinder (snd tracking) = 1"
  "heap (snd tracking) 1 = full_frame"
  "heap (snd tracking) 2 = empty_object"
  "notifications (snd tracking) = [Trigger ''start'']"
  "video (snd tracking) = Some demo_video"
  "snapshots (snd tracking) = []"
  by (simp_all add: tracking_def)

section \<open>The rectangle a drag commits\<close>

text \<open>
  Claim C1, as the library has it. A drag that presses at \<open>p0\<close>, moves at least once and
  releases at \<open>pn\<close> commits \<open>startX = p0.x\<close>, \<open>startY = p0.y\<close>, \<open>endX = pn.x\<close>,
  \<open>endY = pn.y\<close>, with no swap and no absolute value. The extents are the ones the last
  move computed, \<open>width = pm.x - p0.x\<close> and \<open>height = pm.y - p0.y\<close> for the last move
  \<open>pm\<close>: the release does not compute them again. They are \<open>pn - p0\<close> when the last
  move is at the release point.
\<close>

theorem C1_commit:
  assumes "moves \<noteq> []"
    and "eventCoords e0 = (Num x0, Num y0)"
    and "eventCoords (last moves) = (Num xm, Num ym)"
    and "eventCoords en = (Num xn, Num yn)"
  shows "committed (deliver (gesture e0 moves en) cs) =
           \<lparr>startX = Num x0, startY = Num y0, endX = Num xn, endY = Num yn,
            width = Num (xm - x0), height = Num (ym - y0)\<rparr>"
  using assms by (simp add: gesture_commit moved_fields moved_extent)

theorem C1_commit_witness:
  "[mouse 40 50] \<noteq> []
   \<and> eventCoords (mouse 100 50) = (Num 100, Num 50)
   \<and> eventCoords (last [mouse 40 50]) = (Num 40, Num 50)
   \<and> eventCoords (mouse 40 200) = (Num 40, Num 200)
   \<and> committed (deliver (gesture (mouse 100 50) [mouse 40 50] (mouse 40 200)) tracking) =
       \<lparr>startX = Num 100, startY = Num 50, endX = Num 40, endY = Num 200,
        width = Num (- 60), height = Num 0\<rparr>"
  using C1_commit [of "[mouse 40 50]" "mouse 100 50" 100 50 40 50 "mouse 40 200" 40 200
      tracking]
  by (simp add: eventCoords_mouse)

text \<open>
  The scenario of the specification, press at (100, 50), move to (40, 50), release at
  (40, 200): the committed height is not 150.
\<close>

theorem C1_scenario_counterexample:
  "committed (deliver (gesture (mouse 100 50) [mouse 40 50] (mouse 40 200)) tracking) \<noteq>
     \<lparr>startX = Num 100, startY = Num 50, endX = Num 40, endY = Num 200,
      width = Num (- 60), height = Num 150\<rparr>"
proof
  assume claimed:
    "committed (deliver (gesture (mouse 100 50) [mouse 40 50] (mouse 40 200)) tracking) =
       \<lparr>startX = Num 100, startY = Num 50, endX = Num 40, endY = Num 200,
        width = Num (- 60), height = Num 150\<rparr>"
  have "height (committed (deliver (gesture (mouse 100 50) [mouse 40 50] (mouse 40 200))
          tracking)) = Num 0"
    by (simp add: gesture_commit eventCoords_mouse)
  with claimed show False by simp
qed

section \<open>The committed rectangle is the box of the handlers\<close>

lemma dispatch_keeps:
  assumes "\<not> releases p"
  shows "box (fst (snd (dispatch p cs))) = box (fst cs)"
    and "viewfinder (snd (snd (dispatch p cs))) = viewfinder (snd cs)"
    and "endX (heap (snd (snd (dispatch p cs))) a) = endX (heap (snd cs) a)"
    and "endY (heap (snd (snd (dispatch p cs))) a) = endY (heap (snd cs) a)"
  using assms
  by (cases p; cases cs; auto simp: start_def draw_def Let_def split: option.splits)+

lemma deliver_keeps:
  assumes "\<forall>p \<in> set ps. \<not> releases p"
  shows "box (fst (deliver ps cs)) = box (fst cs)
       \<and> viewfinder (snd (deliver ps cs)) = viewfinder (snd cs)
       \<and> endX (heap (snd (deliver ps cs)) a) = endX (heap (snd cs) a)
       \<and> endY (heap (snd (deliver ps cs)) a) = endY (heap (snd cs) a)"
  using assms
proof (induction ps arbitrary: cs)
  case Nil
  show ?case by simp
next
  case (Cons p ps)
  have np: "\<not> releases p" using Cons.prems by simp
  have rest: "\<forall>p \<in> set ps. \<not> releases p" using Cons.prems by simp
  show ?case
    using Cons.IH [OF rest, of "snd (dispatch p cs)"] dispatch_keeps [OF np, of cs]
    by simp
qed

lemma first_drag_eq:
  "fst first_drag = \<lparr>isDragging = False, box = 2\<rparr>"
  "viewfinder (snd first_drag) = 2"
  "heap (snd first_drag) 2 =
     \<lparr>startX = Num 0, startY = Num 0, endX = Num 10, endY = Num 10,
      width = Num 10, height = Num 10\<rparr>"
  by (simp_all add: first_drag_def gesture_effect tracking_parts eventCoords_mouse
      empty_object_def)

lemma pressed_eq:
  "fst pressed = \<lparr>isDragging = True, box = 2\<rparr>"
  "heap (snd pressed) 2 =
     \<lparr>startX = Num 100, startY = Num 50, endX = Undefined, endY = Undefined,
      width = Undefined, height = Undefined\<rparr>"
  by (simp_all add: pressed_def start_eq tracking_parts eventCoords_mouse empty_object_def)

text \<open>
  Claim C2, as the library has it. \<open>stop\<close> makes the one \<open>box\<close> object of the handlers
  the live rectangle, by reference. Once it is live, the presses and moves of the next
  gesture write into it: a press overwrites \<open>startX\<close> and \<open>startY\<close>, a move while
  dragging overwrites \<open>width\<close> and \<open>height\<close>. What stays until the next release is the
  reference \<open>this.viewfinder\<close> itself and the fields \<open>endX\<close> and \<open>endY\<close>.
\<close>

theorem C2_shared_box:
  assumes "viewfinder (snd cs) = box (fst cs)"
    and "\<forall>p \<in> set ps. \<not> releases p"
  shows "viewfinder (snd (deliver ps cs)) = viewfinder (snd cs)
       \<and> endX (committed (deliver ps cs)) = endX (committed cs)
       \<and> endY (committed (deliver ps cs)) = endY (committed cs)
       \<and> committed (snd (dispatch (Mousedown e) cs)) =
           (committed cs)\<lparr>startX := fst (eventCoords e), startY := snd (eventCoords e)\<rparr>
       \<and> (isDragging (fst cs) \<longrightarrow>
            committed (snd (dispatch (Mousemove e) cs)) =
              (committed cs)\<lparr>width := js_sub (fst (eventCoords e)) (startX (committed cs)),
                              height := js_sub (snd (eventCoords e)) (startY (committed cs))\<rparr>)"
proof -
  have down: "committed (snd (dispatch (Mousedown e) cs)) =
           (committed cs)\<lparr>startX := fst (eventCoords e), startY := snd (eventCoords e)\<rparr>"
    using assms(1) by (simp add: start_eq committed_def)
  have move: "committed (snd (dispatch (Mousemove e) cs)) =
              (committed cs)\<lparr>width := js_sub (fst (eventCoords e)) (startX (committed cs)),
                              height := js_sub (snd (eventCoords e)) (startY (committed cs))\<rparr>"
    if "isDragging (fst cs)"
    using assms(1) draw_drag(2,3) [OF that, of e "snd cs"] by (simp add: committed_def)
  show ?thesis
    using deliver_keeps [OF assms(2), of cs] assms(1) down move by (simp add: committed_def)
qed

theorem C2_shared_box_witness:
  "viewfinder (snd first_drag) = box (fst first_drag)
   \<and> \<not> releases (Mousedown (mouse 5 7)) \<and> \<not> releases (Mousemove (mouse 6 9))
   \<and> viewfinder (snd (deliver [Mousedown (mouse 5 7), Mousemove (mouse 6 9)] first_drag)) = 2
   \<and> endX (committed (deliver [Mousedown (mouse 5 7), Mousemove (mouse 6 9)] first_drag)) =
        Num 10
   \<and> endY (committed (deliver [Mousedown (mouse 5 7), Mousemove (mouse 6 9)] first_drag)) =
        Num 10
   \<and> committed (snd (dispatch (Mousedown (mouse 5 7)) first_drag)) =
        \<lparr>startX = Num 5, startY = Num 7, endX = Num 10, endY = Num 10,
         width = Num 10, height = Num 10\<rparr>"
proof -
  have live: "viewfinder (snd first_drag) = box (fst first_drag)"
    by (simp add: first_drag_eq)
  have next_drag: "\<forall>p \<in> set [Mousedown (mouse 5 7), Mousemove (mouse 6 9)]. \<not> releases p"
    by simp
  show ?thesis
    using live next_drag C2_shared_box [OF live next_drag, of "mouse 5 7"]
    by (auto simp: first_drag_eq committed_def eventCoords_mouse)
qed

text \<open>
  After a first drag has been committed, the press of the next gesture at (5, 7) changes
  the object that was committed: it is not the rectangle it was.
\<close>

theorem C2_counterexample:
  "heap (snd (deliver [Mousedown (mouse 5 7)] first_drag)) (viewfinder (snd first_drag)) \<noteq>
   heap (snd first_drag) (viewfinder (snd first_drag))"
proof -
  have "startX (heap (snd (deliver [Mousedown (mouse 5 7)] first_drag)) 2) = Num 5"
    by (simp add: start_eq first_drag_eq eventCoords_mouse)
  then show ?thesis
    by (auto simp: first_drag_eq)
qed

section \<open>Events out of order\<close>

text \<open>
  Claim C3 at its failing input. No drag is active and the live rectangle is the full
  frame; a release at (40, 200) throws nothing, but it makes the box the live rectangle,
  with only \<open>endX\<close> and \<open>endY\<close> assigned, and it triggers \<open>change\<close>.
\<close>

theorem C3_stray_mouseup:
  "\<not> isDragging (fst tracking)
   \<and> committed tracking = full_frame
   \<and> fst (stop (mouse 40 200) tracking) = None
   \<and> committed (snd (stop (mouse 40 200) tracking)) =
        \<lparr>startX = Undefined, startY = Undefined, endX = Num 40, endY = Num 200,
         width = Undefined, height = Undefined\<rparr>
   \<and> notifications (snd (snd (stop (mouse 40 200) tracking))) =
        notifications (snd tracking) @ [Trigger ''change'']"
  by (simp add: stop_eq committed_def tracking_parts eventCoords_mouse empty_object_def
      del: One_nat_def)

text \<open>
  Claim C6, as the library has it. A press while a drag is active throws nothing and keeps
  the drag active, and it moves the anchor: \<open>startX\<close> and \<open>startY\<close> of the box become the
  new point. Nothing else of the box or of the instance changes.
\<close>

theorem C6_restart:
  assumes "isDragging (fst cs)"
  shows "start e cs =
     (None, fst cs,
      (snd cs)\<lparr>heap := (heap (snd cs))(box (fst cs) :=
         (heap (snd cs) (box (fst cs)))\<lparr>startX := fst (eventCoords e),
                                        startY := snd (eventCoords e)\<rparr>)\<rparr>)"
  using assms by (simp add: start_eq)

theorem C6_restart_witness:
  "isDragging (fst pressed)
   \<and> fst (start (mouse 10 20) pressed) = None
   \<and> isDragging (fst (snd (start (mouse 10 20) pressed)))
   \<and> heap (snd (snd (start (mouse 10 20) pressed))) (box (fst pressed)) =
        \<lparr>startX = Num 10, startY = Num 20, endX = Undefined, endY = Undefined,
         width = Undefined, height = Undefined\<rparr>"
  using C6_restart [of pressed "mouse 10 20"]
  by (simp add: pressed_eq eventCoords_mouse)

text \<open>With the button down at (100, 50), a second press at (10, 20) changes the anchor.\<close>

theorem C6_counterexample:
  "startX (heap (snd (snd (start (mouse 10 20) pressed))) (box (fst pressed))) \<noteq>
   startX (heap (snd pressed) (box (fst pressed)))"
  by (simp add: start_eq pressed_eq eventCoords_mouse)

section \<open>Snapshots\<close>

lemma dispatch_video: "video (snd (snd (dispatch p cs))) = video (snd cs)"
  by (cases p) (auto simp: start_eq stop_eq draw_def Let_def split_beta split: option.splits)

lemma deliver_video: "video (snd (deliver ps cs)) = video (snd cs)"
  by (induction ps arbitrary: cs) (simp_all add: dispatch_video)

lemma constructed_reached: "SayCheese demo_page ''#cam'' (Some True) = Inr constructed"
  by (simp add: SayCheese_def userMediaFeatureExists_def demo_page_def setOptions_def
      constructed_def)

lemma canvas_dim_abs:
  assumes "\<bar>n\<bar> \<le> 2147483647"
  shows "canvas_dim d (Num \<bar>n\<bar>) = nat \<bar>n\<bar>"
proof -
  have "\<bar>n\<bar> mod 4294967296 = \<bar>n\<bar>" using assms by simp
  then show ?thesis using assms by (simp add: canvas_dim_def)
qed

lemma length_drawImage:
  "length (drawImage (w, h) f sx sy sw sh dx dy dw dh) = h"
  "row \<in> set (drawImage (w, h) f sx sy sw sh dx dy dw dh) \<Longrightarrow> length row = w"
  by (auto simp: drawImage_def)

text \<open>With a video element attached, the call returns and appends this snapshot.\<close>

lemma takeSnapshot_attached:
  assumes "video s = Some v"
  shows "fst (takeSnapshot cb s) = None"
    and "snapshots (snd (takeSnapshot cb s)) = snapshots s @
      [\<lparr>snap_width = canvas_dim 300 (Math_abs (width (heap s (viewfinder s)))),
        snap_height = canvas_dim 150 (Math_abs (height (heap s (viewfinder s)))),
        snap_pixels = drawImage
          (canvas_dim 300 (Math_abs (width (heap s (viewfinder s)))),
           canvas_dim 150 (Math_abs (height (heap s (viewfinder s)))))
          (current_frame v)
          (Math_min (startX (heap s (viewfinder s))) (endX (heap s (viewfinder s))))
          (Math_min (startY (heap s (viewfinder s))) (endY (heap s (viewfinder s))))
          (canvas_dim 300 (Math_abs (width (heap s (viewfinder s)))))
          (canvas_dim 150 (Math_abs (height (heap s (viewfinder s)))))
          0 0
          (canvas_dim 300 (Math_abs (width (heap s (viewfinder s)))))
          (canvas_dim 150 (Math_abs (height (heap s (viewfinder s)))))\<rparr>]"
  using assms by (simp_all add: takeSnapshot_def Let_def trigger_def)

lemma source_pixel_clipped:
  "source_pixel f x y = None \<or>
   (\<exists>i < frame_width f. \<exists>j < frame_height f. source_pixel f x y = Some (frame_pixel f i j))"
proof (cases "0 \<le> x \<and> x < int (frame_width f) \<and> 0 \<le> y \<and> y < int (frame_height f)")
  case True
  then have inside: "0 \<le> x" "x < int (frame_width f)" "0 \<le> y" "y < int (frame_height f)"
    by simp_all
  have "nat x < frame_width f" using inside by linarith
  moreover have "nat y < frame_height f" using inside by linarith
  moreover have "source_pixel f x y = Some (frame_pixel f (nat x) (nat y))"
    using inside by (simp add: source_pixel_def)
  ultimately show ?thesis by blast
next
  case False
  then have "source_pixel f x y = None" by (simp add: source_pixel_def)
  then show ?thesis by simp
qed

lemma crop_pixel_clipped:
  "crop_pixel f sx sy i j = None \<or>
   (\<exists>a < frame_width f. \<exists>b < frame_height f.
      crop_pixel f sx sy i j = Some (frame_pixel f a b))"
  using source_pixel_clipped [of f]
  by (cases sx; cases sy; simp add: crop_pixel_def)

text \<open>Every pixel of the canvas drawn on is blank or a pixel of the crop.\<close>

lemma drawImage_pixel:
  assumes "row \<in> set (drawImage dims f sx sy sw sh dx dy dw dh)" and "p \<in> set row"
  shows "p = None \<or> (\<exists>u v. u < sw \<and> v < sh \<and> p = crop_pixel f sx sy (int u) (int v))"
proof -
  define g where "g = (\<lambda>v u.
            if dx \<le> u \<and> u < dx + sw \<and> dy \<le> v \<and> v < dy + sh
            then crop_pixel f sx sy (int (u - dx)) (int (v - dy))
            else None)"
  have "drawImage dims f sx sy sw sh dx dy dw dh =
          map (\<lambda>v. map (g v) [0..<fst dims]) [0..<snd dims]"
    by (simp add: drawImage_def g_def)
  then obtain v where "row = map (g v) [0..<fst dims]"
    using assms(1) by auto
  then obtain u where p: "p = g v u"
    using assms(2) by auto
  show ?thesis
  proof (cases "dx \<le> u \<and> u < dx + sw \<and> dy \<le> v \<and> v < dy + sh")
    case True
    then have "u - dx < sw" "v - dy < sh" by linarith+
    moreover have "g v u = crop_pixel f sx sy (int (u - dx)) (int (v - dy))"
      using True unfolding g_def by (rule if_P)
    then have "p = crop_pixel f sx sy (int (u - dx)) (int (v - dy))"
      using p by simp
    ultimately show ?thesis by blast
  next
    case False
    then have "g v u = None" unfolding g_def by (rule if_not_P)
    then show ?thesis using p by simp
  qed
qed

lemma drawImage_clipped:
  assumes "row \<in> set (drawImage dims f sx sy sw sh dx dy dw dh)" and "p \<in> set row"
  shows "p = None \<or> (\<exists>i < frame_width f. \<exists>j < frame_height f. p = Some (frame_pixel f i j))"
  using drawImage_pixel [OF assms] crop_pixel_clipped [of f sx sy] by metis

lemma drawImage_outside:
  assumes "row \<in> set (drawImage dims f (Num ox) (Num oy) sw sh dx dy dw dh)" and "p \<in> set row"
    and "int (frame_width f) \<le> ox \<or> int (frame_height f) \<le> oy
         \<or> ox + int sw \<le> 0 \<or> oy + int sh \<le> 0"
  shows "p = None"
proof -
  from drawImage_pixel [OF assms(1,2)] consider "p = None"
    | u v where "u < sw" "v < sh" "p = crop_pixel f (Num ox) (Num oy) (int u) (int v)"
    by blast
  then show ?thesis
  proof cases
    case 1
    then show ?thesis .
  next
    case 2
    then show ?thesis using assms(3) by (auto simp: crop_pixel_def source_pixel_def)
  qed
qed

lemma drag_down_eq:
  "video (snd drag_down) = Some demo_video"
  "heap (snd drag_down) (viewfinder (snd drag_down)) =
     \<lparr>startX = Num 10, startY = Num 20, endX = Num 30, endY = Num 50,
      width = Num 20, height = Num 30\<rparr>"
  by (simp_all add: drag_down_def deliver_video gesture_effect tracking_parts
      eventCoords_mouse empty_object_def)

lemma far_drag_eq:
  "video (snd far_drag) = Some demo_video"
  "heap (snd far_drag) (viewfinder (snd far_drag)) =
     \<lparr>startX = Num 700, startY = Num 500, endX = Num 720, endY = Num 510,
      width = Num 20, height = Num 10\<rparr>"
  by (simp_all add: far_drag_def deliver_video gesture_effect tracking_parts
      eventCoords_mouse empty_object_def)


lemma click_eq:
  "video (snd click) = Some demo_video"
  "heap (snd click) (viewfinder (snd click)) =
     \<lparr>startX = Num 100, startY = Num 50, endX = Num 100, endY = Num 50,
      width = Undefined, height = Undefined\<rparr>"
  by (simp_all add: click_def deliver_video gesture_effect tracking_parts
      eventCoords_mouse empty_object_def)



text \<open>
  Claim C5, as the library has it. With a video attached \<open>takeSnapshot\<close> returns without
  an error whatever the live rectangle holds, and the snapshot has as many rows as its
  height and as many pixels in a row as its width. An extent that is a number a canvas
  can have as its size gives the snapshot the size \<open>abs\<close> of it, and an extent of zero
  gives a snapshot without area. An extent that was never computed, as after a press and
  release with no move, is no number: the snapshot then has size 0 in that direction.
\<close>

theorem C5_size:
  assumes "video s = Some v"
  shows "fst (takeSnapshot cb s) = None
       \<and> (\<forall>w. width (heap s (viewfinder s)) = Num w \<and> \<bar>w\<bar> \<le> 2147483647 \<longrightarrow>
             snap_width (last (snapshots (snd (takeSnapshot cb s)))) = nat \<bar>w\<bar>)
       \<and> (\<forall>h. height (heap s (viewfinder s)) = Num h \<and> \<bar>h\<bar> \<le> 2147483647 \<longrightarrow>
             snap_height (last (snapshots (snd (takeSnapshot cb s)))) = nat \<bar>h\<bar>)
       \<and> (width (heap s (viewfinder s)) = Undefined \<or> width (heap s (viewfinder s)) = NaN \<longrightarrow>
             snap_width (last (snapshots (snd (takeSnapshot cb s)))) = 0)
       \<and> (height (heap s (viewfinder s)) = Undefined \<or> height (heap s (viewfinder s)) = NaN \<longrightarrow>
             snap_height (last (snapshots (snd (takeSnapshot cb s)))) = 0)
       \<and> length (snap_pixels (last (snapshots (snd (takeSnapshot cb s))))) =
           snap_height (last (snapshots (snd (takeSnapshot cb s))))
       \<and> (\<forall>row \<in> set (snap_pixels (last (snapshots (snd (takeSnapshot cb s))))).
             length row = snap_width (last (snapshots (snd (takeSnapshot cb s)))))"
proof -
  have no_number: "canvas_dim d NaN = 0" for d
    by (simp add: canvas_dim_def)
  show ?thesis
    using assms
    by (auto simp: takeSnapshot_attached canvas_dim_abs no_number length_drawImage)
qed

theorem C5_size_witness:
  "video (snd drag_down) = Some demo_video
   \<and> width (heap (snd drag_down) (viewfinder (snd drag_down))) = Num 20
   \<and> height (heap (snd drag_down) (viewfinder (snd drag_down))) = Num 30
   \<and> fst (takeSnapshot False (snd drag_down)) = None
   \<and> snap_width (last (snapshots (snd (takeSnapshot False (snd drag_down))))) = 20
   \<and> snap_height (last (snapshots (snd (takeSnapshot False (snd drag_down))))) = 30
   \<and> length (snap_pixels (last (snapshots (snd (takeSnapshot False (snd drag_down)))))) = 30
   \<and> length (hd (snap_pixels (last (snapshots (snd (takeSnapshot False (snd drag_down))))))) = 20
   \<and> video (snd click) = Some demo_video
   \<and> width (heap (snd click) (viewfinder (snd click))) = Undefined
   \<and> height (heap (snd click) (viewfinder (snd click))) = Undefined
   \<and> fst (takeSnapshot False (snd click)) = None
   \<and> snap_width (last (snapshots (snd (takeSnapshot False (snd click))))) = 0
   \<and> snap_height (last (snapshots (snd (takeSnapshot False (snd click))))) = 0"
proof -
  define P where "P = snap_pixels (last (snapshots (snd (takeSnapshot False (snd drag_down)))))"
  have down: "fst (takeSnapshot False (snd drag_down)) = None"
    "snap_width (last (snapshots (snd (takeSnapshot False (snd drag_down))))) = 20"
    "snap_height (last (snapshots (snd (takeSnapshot False (snd drag_down))))) = 30"
    "length P = 30" "\<forall>row \<in> set P. length row = 20"
    using C5_size [of "snd drag_down" demo_video False]
    by (simp_all add: drag_down_eq P_def)
  have "P \<noteq> []" using down(4) by auto
  then have "hd P \<in> set P" by simp
  then have first_row: "length (hd P) = 20" using down(5) by blast
  have none: "fst (takeSnapshot False (snd click)) = None"
    "snap_width (last (snapshots (snd (takeSnapshot False (snd click))))) = 0"
    "snap_height (last (snapshots (snd (takeSnapshot False (snd click))))) = 0"
    using C5_size [of "snd click" demo_video False]
    by (simp_all add: click_eq)
  show ?thesis
    using down first_row none by (simp add: drag_down_eq click_eq P_def)
qed

text \<open>
  After a press and release with no move the committed width is undefined: its \<open>abs\<close>
  is \<open>NaN\<close>, and the width of the snapshot is 0.
\<close>

theorem C5_counterexample:
  "Num (int (snap_width (last (snapshots (snd (takeSnapshot False (snd click))))))) \<noteq>
     Math_abs (width (heap (snd click) (viewfinder (snd click))))"
  by (simp add: takeSnapshot_attached [OF click_eq(1)] click_eq(2))




text \<open>
  Claim C7. With \<open>drawImage\<close> as the specification describes it and a video attached,
  \<open>takeSnapshot\<close> returns without an error whatever the live rectangle holds. Every
  pixel of the snapshot is transparent or is a pixel the frame has, so nothing is read
  outside the frame; and when the crop lies wholly outside the frame, every pixel of the
  snapshot is transparent.
\<close>

theorem C7_clipped:
  assumes "video s = Some v"
  shows "fst (takeSnapshot cb s) = None
       \<and> (\<forall>row \<in> set (snap_pixels (last (snapshots (snd (takeSnapshot cb s))))).
            \<forall>p \<in> set row.
              p = None \<or>
              (\<exists>i < frame_width (current_frame v). \<exists>j < frame_height (current_frame v).
                 p = Some (frame_pixel (current_frame v) i j)))
       \<and> (\<forall>ox oy.
            Math_min (startX (heap s (viewfinder s))) (endX (heap s (viewfinder s))) = Num ox
            \<and> Math_min (startY (heap s (viewfinder s))) (endY (heap s (viewfinder s))) = Num oy
            \<and> (int (frame_width (current_frame v)) \<le> ox
                 \<or> int (frame_height (current_frame v)) \<le> oy
                 \<or> ox + int (snap_width (last (snapshots (snd (takeSnapshot cb s))))) \<le> 0
                 \<or> oy + int (snap_height (last (snapshots (snd (takeSnapshot cb s))))) \<le> 0)
            \<longrightarrow> (\<forall>row \<in> set (snap_pixels (last (snapshots (snd (takeSnapshot cb s))))).
                   \<forall>p \<in> set row. p = None))"
  using assms
  by (auto simp: takeSnapshot_attached dest: drawImage_clipped drawImage_outside)

theorem C7_clipped_witness:
  "video (snd far_drag) = Some demo_video
   \<and> Math_min (startX (heap (snd far_drag) (viewfinder (snd far_drag))))
        (endX (heap (snd far_drag) (viewfinder (snd far_drag)))) = Num 700
   \<and> Math_min (startY (heap (snd far_drag) (viewfinder (snd far_drag))))
        (endY (heap (snd far_drag) (viewfinder (snd far_drag)))) = Num 500
   \<and> int (frame_width (current_frame demo_video)) \<le> 700
   \<and> fst (takeSnapshot False (snd far_drag)) = None
   \<and> snap_width (last (snapshots (snd (takeSnapshot False (snd far_drag))))) = 20
   \<and> snap_height (last (snapshots (snd (takeSnapshot False (snd far_drag))))) = 10
   \<and> snap_pixels (last (snapshots (snd (takeSnapshot False (snd far_drag))))) =
       replicate 10 (replicate 20 None)"
proof -
  have attached: "video (snd far_drag) = Some demo_video"
    by (simp add: far_drag_eq)
  have blank: "drawImage (20, 10) demo_frame (Num 700) (Num 500) 20 10 0 0 20 10 =
      replicate 10 (replicate 20 None)"
    by (simp add: drawImage_def crop_pixel_def source_pixel_def demo_frame_def
        map_replicate_const cong: if_cong)
  have shot: "snap_width (last (snapshots (snd (takeSnapshot False (snd far_drag))))) = 20"
    "snap_height (last (snapshots (snd (takeSnapshot False (snd far_drag))))) = 10"
    "snap_pixels (last (snapshots (snd (takeSnapshot False (snd far_drag))))) =
       replicate 10 (replicate 20 None)"
    by (simp_all add: takeSnapshot_attached [OF attached] far_drag_eq canvas_dim_def
        demo_video_def blank)
  have returns: "fst (takeSnapshot False (snd far_drag)) = None"
    using C7_clipped [OF attached, of False] by blast
  show ?thesis
    using attached shot returns by (simp add: far_drag_eq demo_video_def demo_frame_def)
qed

text \<open>
  Claim C9, as the library has it. \<open>takeSnapshot\<close> changes nothing of the instance but
  the snapshot collection (and what it hands to the host). With a video attached it
  returns and the collection is the old one with one snapshot appended. With
  \<open>this.video\<close> null the call throws at \<open>drawImage\<close> and the instance is as it was.
\<close>

theorem C9_frame:
  "snd (takeSnapshot cb s) =
     s\<lparr>snapshots := snapshots (snd (takeSnapshot cb s)),
       notifications := notifications (snd (takeSnapshot cb s))\<rparr>
   \<and> (video s \<noteq> None \<longrightarrow>
        fst (takeSnapshot cb s) = None
        \<and> snapshots (snd (takeSnapshot cb s)) =
            snapshots s @ [last (snapshots (snd (takeSnapshot cb s)))])
   \<and> (video s = None \<longrightarrow>
        fst (takeSnapshot cb s) = Some TypeError \<and> snd (takeSnapshot cb s) = s)"
  by (auto simp: takeSnapshot_def Let_def trigger_def split: option.splits)

theorem C9_frame_witness:
  "video (snd tracking) \<noteq> None
   \<and> fst (takeSnapshot True (snd tracking)) = None
   \<and> length (snapshots (snd (takeSnapshot True (snd tracking)))) = 1
   \<and> viewfinder (snd (takeSnapshot True (snd tracking))) = viewfinder (snd tracking)
   \<and> heap (snd (takeSnapshot True (snd tracking))) = heap (snd tracking)
   \<and> video (snd (takeSnapshot True (snd tracking))) = video (snd tracking)
   \<and> canvas (snd (takeSnapshot True (snd tracking))) = canvas (snd tracking)
   \<and> canvas_context (snd (takeSnapshot True (snd tracking))) = canvas_context (snd tracking)
   \<and> dynamicViewfinder (snd (takeSnapshot True (snd tracking))) =
       dynamicViewfinder (snd tracking)"
proof -
  have attached: "video (snd tracking) \<noteq> None"
    by (simp add: tracking_parts)
  from C9_frame [of True "snd tracking"] attached
  have same: "snd (takeSnapshot True (snd tracking)) =
      (snd tracking)\<lparr>snapshots := snapshots (snd (takeSnapshot True (snd tracking))),
        notifications := notifications (snd (takeSnapshot True (snd tracking)))\<rparr>"
    and ok: "fst (takeSnapshot True (snd tracking)) = None"
    and grown: "snapshots (snd (takeSnapshot True (snd tracking))) =
      snapshots (snd tracking) @ [last (snapshots (snd (takeSnapshot True (snd tracking))))]"
    by blast+
  have one: "length (snapshots (snd (takeSnapshot True (snd tracking)))) = 1"
    using arg_cong [OF grown, of length] by (simp add: tracking_parts)
  have fields: "viewfinder (snd (takeSnapshot True (snd tracking))) = viewfinder (snd tracking)"
    "heap (snd (takeSnapshot True (snd tracking))) = heap (snd tracking)"
    "video (snd (takeSnapshot True (snd tracking))) = video (snd tracking)"
    "canvas (snd (takeSnapshot True (snd tracking))) = canvas (snd tracking)"
    "canvas_context (snd (takeSnapshot True (snd tracking))) = canvas_context (snd tracking)"
    "dynamicViewfinder (snd (takeSnapshot True (snd tracking))) =
       dynamicViewfinder (snd tracking)"
    by (subst same, simp)+
  show ?thesis using attached ok one fields by blast
qed

text \<open>
  On the instance as the constructor leaves it, \<open>this.video\<close> is null; a call of
  \<open>takeSnapshot\<close> appends nothing.
\<close>

theorem C9_counterexample:
  "video constructed = None
   \<and> length (snapshots (snd (takeSnapshot False constructed))) \<noteq>
       Suc (length (snapshots constructed))"
  by (simp add: takeSnapshot_def constructed_def)

section \<open>Construction and stop\<close>

text \<open>
  Claim C8. When the navigator has none of \<open>getUserMedia\<close>, \<open>webkitGetUserMedia\<close> and
  \<open>mozGetUserMedia\<close>, the constructor throws its error at once, whatever the page, the
  selector and the options are, and there is no instance.
\<close>

theorem C8_unsupported:
  assumes "''getUserMedia'' \<notin> navigator pg"
    and "''webkitGetUserMedia'' \<notin> navigator pg"
    and "''mozGetUserMedia'' \<notin> navigator pg"
  shows "SayCheese pg selector options =
           Inl (Error ''getUserMedia() is not supported in this browser'')"
  using assms by (simp add: SayCheese_def userMediaFeatureExists_def)

theorem C8_unsupported_witness:
  "''getUserMedia'' \<notin> navigator old_browser
   \<and> ''webkitGetUserMedia'' \<notin> navigator old_browser
   \<and> ''mozGetUserMedia'' \<notin> navigator old_browser
   \<and> SayCheese old_browser ''#cam'' (Some True) =
       Inl (Error ''getUserMedia() is not supported in this browser'')"
  using C8_unsupported [of old_browser "''#cam''" "Some True"]
  by (simp add: old_browser_def)

lemma named_video_parts:
  "globals named_video ''video'' = Some (GNode 1)"
  "dom named_video (body named_video) = [1]"
  "video named_video = Some demo_video"
  by (simp_all add: named_video_def tracking_def)

text \<open>
  Claim C10, as the library has it. \<open>stop\<close> sets \<open>this.video\<close> to null and then looks up
  the bare identifier \<open>video\<close>, which the library declares nowhere. On a page with no
  global of that name the lookup throws a ReferenceError and no node is removed from the
  document. On a page that has such a global the lookup succeeds: a node that is a child
  of the body is removed from it and \<open>stop\<close> returns, a node that is no child of the
  body makes \<open>removeChild\<close> throw NotFoundError, and a value that is no node makes it
  throw TypeError. In every case the instance is left with \<open>video\<close> null.
\<close>

theorem C10_stop:
  "video (snd (SayCheese_stop s)) = None
   \<and> (globals s ''video'' = None \<longrightarrow>
        SayCheese_stop s = (Some ReferenceError, s\<lparr>video := None\<rparr>))
   \<and> (\<forall>n. globals s ''video'' = Some (GNode n) \<and> n \<in> set (dom s (body s)) \<longrightarrow>
        SayCheese_stop s =
          (None, s\<lparr>video := None, dom := (dom s)(body s := remove1 n (dom s (body s)))\<rparr>))
   \<and> (\<forall>n. globals s ''video'' = Some (GNode n) \<and> n \<notin> set (dom s (body s)) \<longrightarrow>
        SayCheese_stop s = (Some NotFoundError, s\<lparr>video := None\<rparr>))
   \<and> (globals s ''video'' = Some GOther \<longrightarrow>
        SayCheese_stop s = (Some TypeError, s\<lparr>video := None\<rparr>))"
  by (auto simp: SayCheese_stop_def removeChild_def Let_def split: option.splits gval.splits)

theorem C10_stop_witness:
  "globals (snd tracking) ''video'' = None
   \<and> fst (SayCheese_stop (snd tracking)) = Some ReferenceError
   \<and> video (snd tracking) = Some demo_video
   \<and> video (snd (SayCheese_stop (snd tracking))) = None
   \<and> dom (snd (SayCheese_stop (snd tracking))) = dom (snd tracking)
   \<and> globals named_video ''video'' = Some (GNode 1)
   \<and> 1 \<in> set (dom named_video (body named_video))
   \<and> fst (SayCheese_stop named_video) = None
   \<and> dom (snd (SayCheese_stop named_video)) (body named_video) = []"
proof -
  have unnamed: "globals (snd tracking) ''video'' = None"
    by (simp add: tracking_def)
  have thrown: "SayCheese_stop (snd tracking) = (Some ReferenceError, (snd tracking)\<lparr>video := None\<rparr>)"
    using C10_stop [of "snd tracking"] unnamed by blast
  have child: "globals named_video ''video'' = Some (GNode 1)"
    "1 \<in> set (dom named_video (body named_video))"
    by (simp_all add: named_video_parts)
  have removed: "SayCheese_stop named_video =
      (None, named_video\<lparr>video := None,
         dom := (dom named_video)(body named_video :=
           remove1 1 (dom named_video (body named_video)))\<rparr>)"
    using C10_stop [of named_video] child by blast
  show ?thesis
    using unnamed child by (simp add: thrown removed named_video_parts tracking_parts)
qed

text \<open>
  On the page where the container has the id \<open>video\<close>, \<open>stop\<close> throws nothing and the
  body loses its child.
\<close>

theorem C10_counterexample:
  "fst (SayCheese_stop named_video) \<noteq> Some ReferenceError
   \<and> dom (snd (SayCheese_stop named_video)) (body named_video) \<noteq>
       dom named_video (body named_video)"
  by (simp add: SayCheese_stop_def removeChild_def named_video_parts Let_def)

end
